theory Spec2Isabelle
  imports Complex_Main
begin

section \<open>The WGS84 notebook: data model\<close>

text \<open>
  The notebook \<^verbatim>\<open>exploration/FunWithWGS84.ipynb\<close> works on numpy's double precision
  floats. The embedding idealises them as real numbers: \<open>sin\<close>, \<open>cos\<close>, \<open>sqrt\<close> and \<open>pi\<close>
  are the functions of analysis, and no rounding takes place. Every statement below is a
  statement about this real-number reading of the code.

  The program's doubles depart from this reading in the last bits of every result, and
  wholly for latitudes of magnitude about \<open>10 ^ 18\<close> and more, where the double sum
  \<^verbatim>\<open>np.deg2rad(lat) + pi / 2.\<close> no longer differs from \<^verbatim>\<open>np.deg2rad(lat)\<close> by a quarter
  turn. Properties that hold of the reals but not of the doubles (the offset being exactly
  odd in the latitude, its bound, the matrix never being singular) are therefore not
  stated.

  The two ways the code can stop with an exception are kept as values: the \<^verbatim>\<open>assert\<close> of
  the class body, and the \<^verbatim>\<open>LinAlgError\<close> that \<^verbatim>\<open>numpy.linalg.inv\<close> raises on a singular
  matrix.
\<close>

datatype error = AssertionError | LinAlgError

type_synonym vec2 = "real \<times> real"

text \<open>A 2x2 matrix is the pair of its rows, as in \<^verbatim>\<open>np.matrix([[..], [..]])\<close>.\<close>

type_synonym mat2 = "(real \<times> real) \<times> (real \<times> real)"

text \<open>
  \<^verbatim>\<open>
  class WGS84:
      a = 6378137
      b = 6356752.31424518
      f = 1 / 298.257223563
      e = sqrt((a**2 - b**2)/(a**2))
      e_p = sqrt((a**2 - b**2)/(b**2))
      assert(np.allclose(b, a*(1-f)))
  \<close>
  The class attributes are the only global state that \<^verbatim>\<open>line_coordinates_2d\<close> reads; the
  record is that state.
\<close>

record wgs84 =
  WGS84_a :: real
  WGS84_b :: real
  WGS84_f :: real
  WGS84_e :: real
  WGS84_e_p :: real

definition WGS84 :: wgs84 where
  "WGS84 =
     (let a = 6378137;
          b = 6356752.31424518;
          f = 1 / 298.257223563;
          e = sqrt ((a\<^sup>2 - b\<^sup>2) / a\<^sup>2);
          e_p = sqrt ((a\<^sup>2 - b\<^sup>2) / b\<^sup>2)
      in \<lparr>WGS84_a = a, WGS84_b = b, WGS84_f = f, WGS84_e = e, WGS84_e_p = e_p\<rparr>)"

text \<open>
  \<^verbatim>\<open>np.allclose(x, y)\<close> with numpy's default tolerances \<^verbatim>\<open>rtol=1e-05\<close>, \<^verbatim>\<open>atol=1e-08\<close>,
  on two scalars: \<^verbatim>\<open>|x - y| <= atol + rtol * |y|\<close>.
\<close>

definition allclose :: "real \<Rightarrow> real \<Rightarrow> bool" where
  "allclose x y \<longleftrightarrow> \<bar>x - y\<bar> \<le> 1 / 10 ^ 8 + 1 / 10 ^ 5 * \<bar>y\<bar>"

text \<open>Running the class statement: the attributes, or the failed assertion.\<close>

definition WGS84_class :: "error + wgs84" where
  "WGS84_class =
     (if allclose (WGS84_b WGS84) (WGS84_a WGS84 * (1 - WGS84_f WGS84))
      then Inr WGS84 else Inl AssertionError)"

section \<open>The numpy operations the function calls\<close>

text \<open>\<^verbatim>\<open>np.deg2rad(x)\<close> is \<^verbatim>\<open>x * pi / 180\<close>.\<close>

definition deg2rad :: "real \<Rightarrow> real" where
  "deg2rad x = x * (pi / 180)"

definition vec_sub :: "vec2 \<Rightarrow> vec2 \<Rightarrow> vec2" where
  "vec_sub u v = (fst u - fst v, snd u - snd v)"

definition mat_vec :: "mat2 \<Rightarrow> vec2 \<Rightarrow> vec2" where
  "mat_vec M x =
     (case M of ((m11, m12), (m21, m22)) \<Rightarrow>
      case x of (x1, x2) \<Rightarrow> (m11 * x1 + m12 * x2, m21 * x1 + m22 * x2))"

definition det2 :: "mat2 \<Rightarrow> real" where
  "det2 M = (case M of ((m11, m12), (m21, m22)) \<Rightarrow> m11 * m22 - m12 * m21)"

text \<open>
  \<^verbatim>\<open>numpy.linalg.inv\<close> hands the matrix and the identity to LAPACK's \<^verbatim>\<open>gesv\<close>: an LU
  factorisation with partial pivoting (row exchange when the second entry of the first
  column is the larger in absolute value), then forward and back substitution for every
  column of the identity. A zero pivot is reported and numpy raises
  \<^verbatim>\<open>LinAlgError("Singular matrix")\<close>. \<open>lu_solve\<close> is that procedure for one right-hand
  side of a 2x2 system, over the reals; \<open>inv_mat\<close> runs it on the two columns of the
  identity. Lemma \<open>inv_mat_eq\<close> below shows that the result is the inverse of the matrix
  and that the error is raised exactly for determinant zero, so nothing depends on the
  elimination order.
\<close>

definition lu_solve :: "mat2 \<Rightarrow> vec2 \<Rightarrow> error + vec2" where
  "lu_solve M y =
     (case M of ((m11, m12), (m21, m22)) \<Rightarrow>
      case y of (y1, y2) \<Rightarrow>
        let swap = (\<bar>m11\<bar> < \<bar>m21\<bar>);
            p = (if swap then m21 else m11);
            q = (if swap then m22 else m12);
            r = (if swap then m11 else m21);
            s = (if swap then m12 else m22);
            z1 = (if swap then y2 else y1);
            z2 = (if swap then y1 else y2)
        in if p = 0 then Inl LinAlgError
           else let l = r / p; u22 = s - l * q
                in if u22 = 0 then Inl LinAlgError
                   else let x2 = (z2 - l * z1) / u22;
                            x1 = (z1 - q * x2) / p
                        in Inr (x1, x2))"

definition inv_mat :: "mat2 \<Rightarrow> error + mat2" where
  "inv_mat M =
     (case lu_solve M (1, 0) of
        Inl err \<Rightarrow> Inl err
      | Inr (c11, c21) \<Rightarrow>
          (case lu_solve M (0, 1) of
             Inl err \<Rightarrow> Inl err
           | Inr (c12, c22) \<Rightarrow> Inr ((c11, c12), (c21, c22))))"

section \<open>The line coordinates of a latitudinal line\<close>

text \<open>
  \<^verbatim>\<open>
  def line_coordinates_2d(lat):
      theta1, theta2 = np.deg2rad(lat), np.deg2rad(lat) + pi / 2.
      delta = WGS84.e**2 * WGS84.a * sin(theta1)
      u1 = np.array([0, 0])
      u2 = np.array([0, delta])
      A = np.matrix([[sin(theta1), -sin(theta2)],
                     [-cos(theta1), cos(theta2)]])
      tau = inv(A) * (u2 - u1).reshape((2,1))
      return (theta2, tau[0,0])
  \<close>
  The function takes the global state (the class attributes) and returns it with its
  result, so that what a call does to the state is part of the model.
\<close>

definition line_coordinates_2d :: "real \<Rightarrow> wgs84 \<Rightarrow> (error + real \<times> real) \<times> wgs84" where
  "line_coordinates_2d lat W =
     (let theta1 = deg2rad lat;
          theta2 = deg2rad lat + pi / 2;
          delta = (WGS84_e W)\<^sup>2 * WGS84_a W * sin theta1;
          u1 = (0, 0);
          u2 = (0, delta);
          A = ((sin theta1, - sin theta2), (- cos theta1, cos theta2))
      in case inv_mat A of
           Inl err \<Rightarrow> (Inl err, W)
         | Inr Ai \<Rightarrow>
             let tau = mat_vec Ai (vec_sub u2 u1)
             in (Inr (theta2, fst tau), W))"

section \<open>The closed-form solve of the design notes\<close>

text \<open>
  The design notes propose to replace the library inversion by Cramer's rule on the same
  2x2 system. \<open>cramer_solve\<close> is that rule, written from the notes; a zero determinant
  is the same error as the library's. \<open>line_coordinates_2d_cramer\<close> is the function
  with the inversion step exchanged and nothing else changed.
\<close>

definition cramer_solve :: "mat2 \<Rightarrow> vec2 \<Rightarrow> error + vec2" where
  "cramer_solve M y =
     (case M of ((m11, m12), (m21, m22)) \<Rightarrow>
      case y of (y1, y2) \<Rightarrow>
        if det2 M = 0 then Inl LinAlgError
        else Inr (det2 ((y1, m12), (y2, m22)) / det2 M,
                  det2 ((m11, y1), (m21, y2)) / det2 M))"

definition line_coordinates_2d_cramer ::
    "real \<Rightarrow> wgs84 \<Rightarrow> (error + real \<times> real) \<times> wgs84" where
  "line_coordinates_2d_cramer lat W =
     (let theta1 = deg2rad lat;
          theta2 = deg2rad lat + pi / 2;
          delta = (WGS84_e W)\<^sup>2 * WGS84_a W * sin theta1;
          u1 = (0, 0);
          u2 = (0, delta);
          A = ((sin theta1, - sin theta2), (- cos theta1, cos theta2))
      in case cramer_solve A (vec_sub u2 u1) of
           Inl err \<Rightarrow> (Inl err, W)
         | Inr tau \<Rightarrow> (Inr (theta2, fst tau), W))"

section \<open>Elimination computes the inverse\<close>

lemma lu_noswap:
  assumes "\<not> \<bar>a11\<bar> < \<bar>a21\<bar>"
  shows "lu_solve ((a11, a12), (a21, a22)) (y1, y2)
         = cramer_solve ((a11, a12), (a21, a22)) (y1, y2)"
proof (cases "a11 = 0")
  case True
  with assms have "a21 = 0" by simp
  with True show ?thesis by (simp add: lu_solve_def cramer_solve_def det2_def)
next
  case nz: False
  define d where "d = a11 * a22 - a12 * a21"
  have u: "a22 - a21 * a12 / a11 = d / a11"
    using nz by (simp add: d_def field_simps)
  show ?thesis
  proof (cases "d = 0")
    case True
    then have "a22 = a21 * a12 / a11" using u by simp
    then show ?thesis using nz assms True
      by (simp add: lu_solve_def cramer_solve_def det2_def Let_def d_def [symmetric])
  next
    case dz: False
    have c1: "a22 \<noteq> a21 * a12 / a11" using u dz nz by auto
    have c3: "(y2 - a21 * y1 / a11) / (a22 - a21 * a12 / a11) = (a11 * y2 - y1 * a21) / d"
      unfolding u using nz dz by (simp add: field_simps)
    have c2: "(y1 - a12 * (a11 * y2 - y1 * a21) / d) / a11 = (y1 * a22 - a12 * y2) / d"
    proof -
      have "(y1 - a12 * (a11 * y2 - y1 * a21) / d) / a11
            = (y1 * d - a12 * (a11 * y2 - y1 * a21)) / (d * a11)"
        using nz dz by (simp add: field_simps)
      also have "y1 * d - a12 * (a11 * y2 - y1 * a21) = a11 * (y1 * a22 - a12 * y2)"
        by (simp add: d_def algebra_simps)
      also have "a11 * (y1 * a22 - a12 * y2) / (d * a11) = (y1 * a22 - a12 * y2) / d"
        using nz by simp
      finally show ?thesis .
    qed
    show ?thesis using nz dz assms c1 c2 c3
      by (simp add: lu_solve_def cramer_solve_def det2_def Let_def d_def [symmetric])
  qed
qed

lemma lu_swap:
  assumes "\<bar>a11\<bar> < \<bar>a21\<bar>"
  shows "lu_solve ((a11, a12), (a21, a22)) (y1, y2)
         = cramer_solve ((a11, a12), (a21, a22)) (y1, y2)"
proof -
  from assms have nz: "a21 \<noteq> 0" by auto
  define d where "d = a11 * a22 - a12 * a21"
  have u: "a12 - a11 * a22 / a21 = - d / a21"
    using nz by (simp add: d_def field_simps)
  show ?thesis
  proof (cases "d = 0")
    case True
    then have "a12 = a11 * a22 / a21" using u by simp
    then show ?thesis using nz assms True
      by (simp add: lu_solve_def cramer_solve_def det2_def Let_def d_def [symmetric])
  next
    case dz: False
    have c1: "a12 \<noteq> a11 * a22 / a21" using u dz nz by auto
    have c3: "(y1 - a11 * y2 / a21) / (a12 - a11 * a22 / a21) = (a11 * y2 - y1 * a21) / d"
      unfolding u using nz dz by (simp add: field_simps)
    have c2: "(y2 - a22 * (a11 * y2 - y1 * a21) / d) / a21 = (y1 * a22 - a12 * y2) / d"
    proof -
      have "(y2 - a22 * (a11 * y2 - y1 * a21) / d) / a21
            = (y2 * d - a22 * (a11 * y2 - y1 * a21)) / (d * a21)"
        using nz dz by (simp add: field_simps)
      also have "y2 * d - a22 * (a11 * y2 - y1 * a21) = a21 * (y1 * a22 - a12 * y2)"
        by (simp add: d_def algebra_simps)
      also have "a21 * (y1 * a22 - a12 * y2) / (d * a21) = (y1 * a22 - a12 * y2) / d"
        using nz by simp
      finally show ?thesis .
    qed
    show ?thesis using nz dz assms c1 c2 c3
      by (simp add: lu_solve_def cramer_solve_def det2_def Let_def d_def [symmetric])
  qed
qed

lemma lu_solve_cramer: "lu_solve M y = cramer_solve M y"
proof -
  obtain a11 a12 a21 a22 y1 y2 where M: "M = ((a11, a12), (a21, a22))" and y: "y = (y1, y2)"
    by (metis surj_pair)
  show ?thesis unfolding M y
    by (cases "\<bar>a11\<bar> < \<bar>a21\<bar>") (simp_all add: lu_swap lu_noswap)
qed

lemma inv_mat_eq:
  "inv_mat ((a11, a12), (a21, a22)) =
     (if det2 ((a11, a12), (a21, a22)) = 0 then Inl LinAlgError
      else Inr ((a22 / det2 ((a11, a12), (a21, a22)), - a12 / det2 ((a11, a12), (a21, a22))),
                (- a21 / det2 ((a11, a12), (a21, a22)), a11 / det2 ((a11, a12), (a21, a22)))))"
  by (simp add: inv_mat_def lu_solve_cramer cramer_solve_def det2_def)

lemma inv_mat_solves:
  assumes "det2 M \<noteq> 0"
  shows "\<exists>Mi. inv_mat M = Inr Mi \<and> (\<forall>y. cramer_solve M y = Inr (mat_vec Mi y))
               \<and> (\<forall>y. mat_vec M (mat_vec Mi y) = y)"
proof -
  obtain a11 a12 a21 a22 where M: "M = ((a11, a12), (a21, a22))"
    by (metis surj_pair)
  define d where "d = a11 * a22 - a12 * a21"
  have dz: "d \<noteq> 0" using assms by (simp add: M det2_def d_def)
  let ?Mi = "((a22 / d, - a12 / d), (- a21 / d, a11 / d))"
  have 1: "inv_mat M = Inr ?Mi"
    using dz by (simp add: M inv_mat_eq det2_def d_def)
  have 2: "cramer_solve M y = Inr (mat_vec ?Mi y)" for y
  proof -
    obtain y1 y2 where y: "y = (y1, y2)" by (metis surj_pair)
    show ?thesis using dz
      by (simp add: M y cramer_solve_def mat_vec_def det2_def d_def [symmetric] field_simps)
  qed
  have 3: "mat_vec M (mat_vec ?Mi y) = y" for y
  proof -
    obtain y1 y2 where y: "y = (y1, y2)" by (metis surj_pair)
    have "a11 * (a22 * y1 / d - a12 * y2 / d) + a12 * (a11 * y2 / d - a21 * y1 / d)
          = y1 * (d / d)"
      by (simp add: d_def field_simps)
    moreover have "a21 * (a22 * y1 / d - a12 * y2 / d) + a22 * (a11 * y2 / d - a21 * y1 / d)
          = y2 * (d / d)"
      by (simp add: d_def field_simps)
    ultimately show ?thesis using dz
      by (simp add: M y mat_vec_def)
  qed
  from 1 2 3 show ?thesis by blast
qed

section \<open>What the function computes\<close>

lemma sin_theta2: "sin (t + pi / 2) = cos t"
  by (simp add: sin_add)

lemma cos_theta2: "cos (t + pi / 2) = - sin t"
  by (simp add: cos_add)

lemma det2_A: "det2 ((sin t, - cos t), (- cos t, - sin t)) = - 1"
proof -
  have "sin t * sin t + cos t * cos t = 1"
    using sin_cos_squared_add [of t] by (simp add: power2_eq_square)
  then show ?thesis by (simp add: det2_def algebra_simps)
qed

lemma inv_mat_A:
  "inv_mat ((sin t, - cos t), (- cos t, - sin t)) = Inr ((sin t, - cos t), (- cos t, - sin t))"
  by (simp only: inv_mat_eq det2_A) simp

lemma line_coordinates_2d_eq:
  "line_coordinates_2d lat W =
     (Inr (deg2rad lat + pi / 2,
           - (cos (deg2rad lat) * ((WGS84_e W)\<^sup>2 * WGS84_a W * sin (deg2rad lat)))), W)"
  by (simp add: line_coordinates_2d_def Let_def sin_theta2 cos_theta2 inv_mat_A
      mat_vec_def vec_sub_def)

lemma line_coordinates_2d_cramer_eq:
  "line_coordinates_2d_cramer lat W =
     (Inr (deg2rad lat + pi / 2,
           - (cos (deg2rad lat) * ((WGS84_e W)\<^sup>2 * WGS84_a W * sin (deg2rad lat)))), W)"
  by (simp add: line_coordinates_2d_cramer_def Let_def sin_theta2 cos_theta2
      cramer_solve_def det2_A vec_sub_def) (simp add: det2_def)

section \<open>Bounds on \<open>pi\<close>\<close>

text \<open>
  The documented example prints the angle to sixteen digits, so the comparison needs
  \<open>pi\<close> to that precision. Machin's formula reduces it to \<open>arctan (1 / 5)\<close> and
  \<open>arctan (1 / 239)\<close>, whose alternating series are enclosed by their partial sums.
\<close>

lemma arctan_series_bounds:
  fixes x :: real
  assumes "0 < x" "x \<le> 1"
  shows "(\<Sum>k<2*n. (-1)^k * (1 / real (k*2+1) * x^(k*2+1))) \<le> arctan x"
    and "arctan x \<le> (\<Sum>k<2*n+1. (-1)^k * (1 / real (k*2+1) * x^(k*2+1)))"
proof -
  have ax: "\<bar>x\<bar> \<le> 1" using assms by simp
  have pos: "0 < 1 / real (0 * 2 + 1) * x ^ (0 * 2 + 1)" using assms by simp
  from summable_Leibniz(2) [OF zeroseq_arctan_series [OF ax] monoseq_arctan_series [OF ax]] pos
  have "(\<Sum>k. (-1)^k * (1 / real (k*2+1) * x^(k*2+1)))
        \<in> {\<Sum>k<2*n. (-1)^k * (1 / real (k*2+1) * x^(k*2+1)) ..
           \<Sum>k<2*n+1. (-1)^k * (1 / real (k*2+1) * x^(k*2+1))}"
    by blast
  then show "(\<Sum>k<2*n. (-1)^k * (1 / real (k*2+1) * x^(k*2+1))) \<le> arctan x"
    and "arctan x \<le> (\<Sum>k<2*n+1. (-1)^k * (1 / real (k*2+1) * x^(k*2+1)))"
    using arctan_series [OF ax] by simp_all
qed

lemma arctan5_lower: "(19739555984988075 / 10 ^ 17 :: real) \<le> arctan (1 / 5)"
proof -
  have "(19739555984988075 / 10 ^ 17 :: real)
        \<le> (\<Sum>k<2*6. (-1)^k * (1 / real (k*2+1) * (1/5)^(k*2+1)))"
    by (simp add: eval_nat_numeral)
  also have "\<dots> \<le> arctan (1/5)"
    by (rule arctan_series_bounds(1)) simp_all
  finally show ?thesis .
qed

lemma arctan5_upper: "arctan (1 / 5) \<le> (19739555984988077 / 10 ^ 17 :: real)"
proof -
  have "arctan (1/5) \<le> (\<Sum>k<2*5+1. (-1)^k * (1 / real (k*2+1) * (1/5)^(k*2+1)))"
    by (rule arctan_series_bounds(2)) simp_all
  also have "\<dots> \<le> (19739555984988077 / 10 ^ 17 :: real)"
    by (simp add: eval_nat_numeral)
  finally show ?thesis .
qed

lemma arctan239_lower: "(41840760020747238 / 10 ^ 19 :: real) \<le> arctan (1 / 239)"
proof -
  have "(41840760020747238 / 10 ^ 19 :: real)
        \<le> (\<Sum>k<2*2. (-1)^k * (1 / real (k*2+1) * (1/239)^(k*2+1)))"
    by (simp add: eval_nat_numeral)
  also have "\<dots> \<le> arctan (1/239)"
    by (rule arctan_series_bounds(1)) simp_all
  finally show ?thesis .
qed

lemma arctan239_upper: "arctan (1 / 239) \<le> (41840760020747271 / 10 ^ 19 :: real)"
proof -
  have "arctan (1/239) \<le> (\<Sum>k<2*1+1. (-1)^k * (1 / real (k*2+1) * (1/239)^(k*2+1)))"
    by (rule arctan_series_bounds(2)) simp_all
  also have "\<dots> \<le> (41840760020747271 / 10 ^ 19 :: real)"
    by (simp add: eval_nat_numeral)
  finally show ?thesis .
qed

lemma pi_bounds: "3.141592653589793 < pi" "pi < 3.1415926535897935"
proof -
  have m: "pi = 16 * arctan (1 / 5) - 4 * arctan (1 / 239)"
    using machin by simp
  show "3.141592653589793 < pi"
    unfolding m using arctan5_lower arctan239_upper by simp
  show "pi < 3.1415926535897935"
    unfolding m using arctan5_upper arctan239_lower by simp
qed

section \<open>The constants and the sample latitudes\<close>

lemma deg2rad_45: "deg2rad 45 = pi / 4"
  by (simp add: deg2rad_def)

lemma sin_cos_45: "cos (pi / 4) * sin (pi / 4) = 1 / 2"
  by (simp add: sin_45 cos_45)

lemma WGS84_e2a:
  "(WGS84_e WGS84)\<^sup>2 * WGS84_a WGS84 = (6378137\<^sup>2 - 6356752.31424518\<^sup>2) / 6378137"
proof -
  have "(0::real) \<le> (6378137\<^sup>2 - 6356752.31424518\<^sup>2) / 6378137\<^sup>2"
    by (simp add: power2_eq_square)
  then have "(WGS84_e WGS84)\<^sup>2 = (6378137\<^sup>2 - 6356752.31424518\<^sup>2) / 6378137\<^sup>2"
    by (simp only: WGS84_def Let_def wgs84.simps real_sqrt_pow2)
  then show ?thesis by (simp add: WGS84_def Let_def)
qed

lemma WGS84_e2a_pos: "0 < (WGS84_e WGS84)\<^sup>2 * WGS84_a WGS84"
  by (simp only: WGS84_e2a) (simp add: power2_eq_square)

lemma offset_45:
  "fst (line_coordinates_2d 45 WGS84)
     = Inr (3 * pi / 4, - ((WGS84_e WGS84)\<^sup>2 * WGS84_a WGS84 / 2))"
proof -
  have "cos (pi / 4) * ((WGS84_e WGS84)\<^sup>2 * WGS84_a WGS84 * sin (pi / 4))
        = (WGS84_e WGS84)\<^sup>2 * WGS84_a WGS84 * (cos (pi / 4) * sin (pi / 4))"
    by (simp only: mult_ac)
  then show ?thesis
    by (simp add: line_coordinates_2d_eq deg2rad_45 sin_cos_45)
qed

section \<open>The claims\<close>

text \<open>
  C1, as the specification states it: for every latitude, with \<open>theta1 = deg2rad lat\<close>,
  \<open>theta2 = theta1 + pi / 2\<close> and \<open>delta = e\<^sup>2 * a * sin theta1\<close>, the function solves
  \<open>A * (tau1, tau2) = (0, - delta)\<close> and returns \<open>(theta2, tau1)\<close>. This fails at
  latitude 45 with the WGS84 constants: no solution of the system with right-hand side
  \<open>(0, - delta)\<close> has the returned offset as its first component. The code subtracts
  the other way round, \<^verbatim>\<open>u2 - u1\<close> with \<^verbatim>\<open>u1 = [0, 0]\<close> and \<^verbatim>\<open>u2 = [0, delta]\<close>.
\<close>

theorem line_coordinates_2d_spec_rhs_counterexample:
  "\<not> (\<exists>tau1 tau2.
        mat_vec ((sin (deg2rad 45), - sin (deg2rad 45 + pi / 2)),
                 (- cos (deg2rad 45), cos (deg2rad 45 + pi / 2))) (tau1, tau2)
          = (0, - ((WGS84_e WGS84)\<^sup>2 * WGS84_a WGS84 * sin (deg2rad 45)))
        \<and> fst (line_coordinates_2d 45 WGS84) = Inr (deg2rad 45 + pi / 2, tau1))"
proof
  define K where "K = (WGS84_e WGS84)\<^sup>2 * WGS84_a WGS84"
  define r where "r = sqrt 2 / (2::real)"
  have K: "0 < K" unfolding K_def by (rule WGS84_e2a_pos)
  have rr: "r * r = 1 / 2" by (simp add: r_def)
  assume "\<exists>tau1 tau2.
        mat_vec ((sin (deg2rad 45), - sin (deg2rad 45 + pi / 2)),
                 (- cos (deg2rad 45), cos (deg2rad 45 + pi / 2))) (tau1, tau2)
          = (0, - ((WGS84_e WGS84)\<^sup>2 * WGS84_a WGS84 * sin (deg2rad 45)))
        \<and> fst (line_coordinates_2d 45 WGS84) = Inr (deg2rad 45 + pi / 2, tau1)"
  then obtain tau1 tau2 where
    sys0: "mat_vec ((sin (deg2rad 45), - sin (deg2rad 45 + pi / 2)),
                 (- cos (deg2rad 45), cos (deg2rad 45 + pi / 2))) (tau1, tau2)
          = (0, - ((WGS84_e WGS84)\<^sup>2 * WGS84_a WGS84 * sin (deg2rad 45)))"
    and ret: "fst (line_coordinates_2d 45 WGS84) = Inr (deg2rad 45 + pi / 2, tau1)"
    by blast
  from sys0 have sys: "mat_vec ((r, - r), (- r, - r)) (tau1, tau2) = (0, - (K * r))"
    by (simp only: sin_theta2 cos_theta2 deg2rad_45 sin_45 cos_45 K_def r_def)
  from ret have t1: "tau1 = - (K / 2)"
    unfolding offset_45 K_def by simp
  from sys have e1: "r * tau1 - r * tau2 = 0" and e2: "- (r * tau1) - r * tau2 = - (K * r)"
    by (simp_all add: mat_vec_def)
  from e1 e2 have "2 * (r * tau1) = K * r" by linarith
  then have "r * (2 * (r * tau1)) = r * (K * r)" by simp
  then have "2 * (r * r) * tau1 = (r * r) * K" by (simp only: mult_ac)
  then have "tau1 = K / 2" by (simp add: rr)
  with t1 K show False by simp
qed

text \<open>
  C1, amended: for every latitude and every value of the constants, the function returns
  \<open>(theta2, tau1)\<close> where \<open>(tau1, tau2)\<close> solves the system with right-hand side
  \<open>u2 - u1 = (0, delta)\<close>.
\<close>

theorem line_coordinates_2d_solves_system:
  "\<exists>tau1 tau2.
      mat_vec ((sin (deg2rad lat), - sin (deg2rad lat + pi / 2)),
               (- cos (deg2rad lat), cos (deg2rad lat + pi / 2))) (tau1, tau2)
        = (0, (WGS84_e W)\<^sup>2 * WGS84_a W * sin (deg2rad lat))
      \<and> fst (line_coordinates_2d lat W) = Inr (deg2rad lat + pi / 2, tau1)"
proof -
  define D where "D = (WGS84_e W)\<^sup>2 * WGS84_a W * sin (deg2rad lat)"
  have "sin (deg2rad lat) * sin (deg2rad lat) + cos (deg2rad lat) * cos (deg2rad lat) = 1"
    using sin_cos_squared_add [of "deg2rad lat"] by (simp add: power2_eq_square)
  then have "(sin (deg2rad lat) * sin (deg2rad lat) + cos (deg2rad lat) * cos (deg2rad lat)) * D
             = D"
    by simp
  then have "cos (deg2rad lat) * (cos (deg2rad lat) * D)
             + sin (deg2rad lat) * (sin (deg2rad lat) * D) = D"
    by (simp only: distrib_right mult.assoc add.commute)
  then have "mat_vec ((sin (deg2rad lat), - sin (deg2rad lat + pi / 2)),
               (- cos (deg2rad lat), cos (deg2rad lat + pi / 2)))
               (- (cos (deg2rad lat) * D), - (sin (deg2rad lat) * D)) = (0, D)"
    by (simp add: mat_vec_def sin_theta2 cos_theta2)
  moreover have "fst (line_coordinates_2d lat W)
                 = Inr (deg2rad lat + pi / 2, - (cos (deg2rad lat) * D))"
    by (simp add: line_coordinates_2d_eq D_def)
  ultimately show ?thesis unfolding D_def by blast
qed

text \<open>
  C2: at latitude 45 the function returns the angle \<open>3 * pi / 4\<close>, which is within
  \<open>1 / 10 ^ 15\<close> of 2.356194490192345, and an offset within \<open>2 / 10 ^ 10\<close> of
  -21348.836353589373 (the exact real value is \<open>- (a\<^sup>2 - b\<^sup>2) / (2 * a)\<close>, about
  -21348.8363535895).
\<close>

theorem line_coordinates_2d_45:
  "\<exists>angle offset.
      fst (line_coordinates_2d 45 WGS84) = Inr (angle, offset)
      \<and> angle = 3 * pi / 4
      \<and> \<bar>angle - 2.356194490192345\<bar> < 1 / 10 ^ 15
      \<and> \<bar>offset - (- 21348.836353589373)\<bar> < 2 / 10 ^ 10"
proof -
  have a1: "3 * pi / 4 - 2.356194490192345 < 1 / 10 ^ 15"
    using pi_bounds by simp
  have a2: "- (3 * pi / 4 - 2.356194490192345) < 1 / 10 ^ 15"
    using pi_bounds by simp
  from a1 a2 have a: "\<bar>3 * pi / 4 - 2.356194490192345\<bar> < 1 / 10 ^ 15"
    unfolding abs_less_iff by (rule conjI)
  have o: "\<bar>- ((WGS84_e WGS84)\<^sup>2 * WGS84_a WGS84 / 2) - (- 21348.836353589373)\<bar>
           < 2 / 10 ^ 10"
    by (simp only: WGS84_e2a) (simp add: power2_eq_square)
  from a o offset_45 show ?thesis by blast
qed

text \<open>
  C3: for every latitude (and every value of the constants) the call returns a pair, and
  its first component is \<open>deg2rad lat + pi / 2\<close>.
\<close>

theorem line_coordinates_2d_angle:
  "\<exists>offset. fst (line_coordinates_2d lat W) = Inr (deg2rad lat + pi / 2, offset)"
  by (simp add: line_coordinates_2d_eq)

text \<open>
  C6: with the library inversion replaced by Cramer's rule on the same system, the
  function returns the same result for every latitude and every value of the constants.
\<close>

theorem line_coordinates_2d_cramer_equiv:
  "line_coordinates_2d_cramer lat W = line_coordinates_2d lat W"
  by (simp only: line_coordinates_2d_cramer_eq line_coordinates_2d_eq)

text \<open>
  C7, as the specification states it: the stored flattening equals \<open>1 - b / a\<close>.
  It does not: \<open>f\<close> and \<open>b\<close> are stored independently, \<open>b\<close> rounded to eight decimals.
\<close>

theorem WGS84_flattening_counterexample:
  "WGS84_f WGS84 \<noteq> 1 - WGS84_b WGS84 / WGS84_a WGS84"
  by (simp add: WGS84_def Let_def)

text \<open>
  C7, amended: the stored eccentricity is \<open>sqrt ((a\<^sup>2 - b\<^sup>2) / a\<^sup>2)\<close> of the stored \<open>a\<close>
  and \<open>b\<close>, and the assertion \<^verbatim>\<open>np.allclose(b, a*(1-f))\<close> of the class body holds, so
  the class statement completes with the attributes instead of raising
  \<^verbatim>\<open>AssertionError\<close>. The flattening is related to \<open>1 - b / a\<close> only through that
  assertion, not by an equation.
\<close>

theorem WGS84_constants_relations:
  "WGS84_e WGS84 = sqrt (((WGS84_a WGS84)\<^sup>2 - (WGS84_b WGS84)\<^sup>2) / (WGS84_a WGS84)\<^sup>2)
   \<and> allclose (WGS84_b WGS84) (WGS84_a WGS84 * (1 - WGS84_f WGS84))
   \<and> WGS84_class = Inr WGS84"
proof -
  have c: "allclose (WGS84_b WGS84) (WGS84_a WGS84 * (1 - WGS84_f WGS84))"
    by (simp add: allclose_def WGS84_def Let_def)
  have e: "WGS84_e WGS84
           = sqrt (((WGS84_a WGS84)\<^sup>2 - (WGS84_b WGS84)\<^sup>2) / (WGS84_a WGS84)\<^sup>2)"
    by (simp add: WGS84_def Let_def)
  from c e show ?thesis
    by (simp only: WGS84_class_def if_True simp_thms)
qed

text \<open>
  C9: a call leaves the WGS84 constants unchanged: the state returned is the state given,
  whatever the latitude and whether or not the inversion raises.
\<close>

theorem line_coordinates_2d_frame:
  "snd (line_coordinates_2d lat W) = W"
  by (simp add: line_coordinates_2d_def Let_def split: sum.split)

end
